theory Spec2Isabelle
  imports Complex_Main
begin

section \<open>Raster batch scripts: reprojection, resampling, clipping\<close>

text \<open>
  The three scripts of the repository that warp rasters are embedded here: the
  reprojection script (\<open>ProjTransformer.py\<close>), the resampling script and the batch
  clipping script (both have Chinese file names; they are referred to by the functions
  they define, \<open>resample_tif\<close> and \<open>clip_raster_with_shapefile\<close>/\<open>main\<close>).

  The scripts are sequences of calls into GDAL, rasterio, geopandas and the Python
  standard library. What these libraries answer is not in the repository, so every
  library call is a parameter of the model (a field of the record \<open>env\<close>), and every
  call the scripts make is written to a trace of events. A library answer may depend on
  everything that happened before, so each parameter receives the trace so far.
  A Python float is a real number, an infinity or NaN; the rounded product and quotient
  of two floats are parameters of the model as well. The numbers of a geotransform and
  the bounds computed from them are real numbers.
\<close>

subsection \<open>Data of the libraries\<close>

type_synonym path = string

text \<open>The six coefficients returned by \<open>GetGeoTransform()\<close>, indexed 0 to 5.\<close>

record geotransform =
  gt0 :: real
  gt1 :: real
  gt2 :: real
  gt3 :: real
  gt4 :: real
  gt5 :: real

record gdal_dataset =
  RasterXSize :: int
  RasterYSize :: int
  GeoTransform :: geotransform
  Projection :: string
  NoDataValue :: "real option"

datatype resample_alg =
  GRA_NearestNeighbour | GRA_Bilinear | GRA_Cubic | GRA_Average | GRA_Mode

datatype gdal_type = GDT_Byte | GDT_Int16 | GDT_Float32 | GDT_Float64

text \<open>
  The keyword arguments of \<open>gdal.WarpOptions\<close> that the two GDAL scripts use; a keyword
  that a script does not pass is \<open>None\<close> (\<open>False\<close>, \<open>[]\<close>).
\<close>

record warp_options =
  format :: string
  srcSRS :: "string option"
  dstSRS :: "string option"
  resampleAlg :: resample_alg
  dstNodata :: "real option"
  creationOptions :: "string list"
  xRes :: "real option"
  yRes :: "real option"
  outputBounds :: "(real \<times> real \<times> real \<times> real) option"
  outputType :: "gdal_type option"
  multithread :: bool
  warpMemoryLimit :: "real option"

text \<open>rasterio: an affine transform, the metadata dictionary \<open>meta\<close>, a pixel array.\<close>

record affine =
  aff_a :: real
  aff_b :: real
  aff_c :: real
  aff_d :: real
  aff_e :: real
  aff_f :: real

record meta =
  driver :: string
  dtype :: string
  nodata :: "real option"
  width :: int
  height :: int
  count :: int
  crs :: "string option"
  transform :: affine

record image =
  shape :: "int \<times> int \<times> int"
  pixels :: "real list"

record rio_dataset =
  ds_meta :: meta
  ds_pixels :: image

text \<open>A polygon boundary of the shapefile, as its ring of vertices.\<close>

type_synonym geometry = "(real \<times> real) list"

text \<open>The keyword arguments given to \<open>rasterio.mask.mask\<close>.\<close>

record mask_kwargs =
  crop :: bool
  all_touched :: bool
  mask_nodata :: "real option"
  mask_transform :: "affine option"

subsection \<open>Exceptions, messages, events\<close>

text \<open>
  \<open>exn\<close> are the subclasses of Python's \<open>Exception\<close>: the ones the scripts raise
  themselves and \<open>LibraryError\<close> for whatever a library raises. \<open>exit(1)\<close> raises
  \<open>SystemExit\<close>, which \<open>except Exception\<close> does not catch: it is the second
  constructor of \<open>abort\<close>.
\<close>

datatype exn =
    ValueError string
  | ZeroDivisionError
  | OverflowError
  | TypeError string
  | AttributeError
  | FileNotFoundError string
  | LibraryError string

datatype abort = Raised exn | SysExit int

text \<open>
  The messages printed or logged, by what they report (the texts are partly Chinese).
\<close>

datatype message =
    InputDirMissing path
  | ReferenceMissing path
  | AllFilesProcessed
  | InvalidNumber
  | InvalidMethod
  | FoundTifFiles nat
  | FileFailed string exn
  | ResultsSavedTo path
  | Starting
  | ReadingShapefile
  | NoTifFiles
  | UsingReference string
  | FoundFiles nat
  | ErrorProcessing path exn
  | UnexpectedError string exn
  | Summary nat nat nat real string
  | CriticalError exn

datatype level = INFO | WARNING | ERROR

datatype event =
    Exists path
  | Makedirs path
  | Listdir path
  | Print message
  | Log level message
  | GdalOpen path
  | GdalWarp path gdal_dataset warp_options
  | ReadFile path
  | RioOpen path
  | RioMask rio_dataset "geometry list" mask_kwargs
  | RioCreate path meta
  | RioWrite path image

text \<open>
  A Python float. \<open>float(...)\<close> of the user's text may give any of them.
\<close>

datatype pyfloat = Finite real | Infinity | NegInfinity | NaN

record env =
  float_mul :: "pyfloat \<Rightarrow> pyfloat \<Rightarrow> pyfloat"
  float_div :: "pyfloat \<Rightarrow> pyfloat \<Rightarrow> pyfloat"
  os_path_exists :: "event list \<Rightarrow> path \<Rightarrow> bool"
  os_makedirs :: "event list \<Rightarrow> path \<Rightarrow> exn option"
  os_listdir :: "event list \<Rightarrow> path \<Rightarrow> exn + string list"
  os_path_join :: "path \<Rightarrow> string \<Rightarrow> path"
  os_path_basename :: "path \<Rightarrow> string"
  os_path_dirname :: "path \<Rightarrow> path"
  os_path_normcase :: "string \<Rightarrow> string"
  gdal_Open :: "event list \<Rightarrow> path \<Rightarrow> exn + gdal_dataset option"
  gdal_Warp :: "event list \<Rightarrow> path \<Rightarrow> gdal_dataset \<Rightarrow> warp_options \<Rightarrow> exn option"
  gpd_read_file :: "event list \<Rightarrow> path \<Rightarrow> exn + geometry list"
  rasterio_open :: "event list \<Rightarrow> path \<Rightarrow> exn + rio_dataset"
  rasterio_mask ::
    "event list \<Rightarrow> rio_dataset \<Rightarrow> geometry list \<Rightarrow> mask_kwargs \<Rightarrow> exn + image \<times> affine"
  rasterio_create :: "event list \<Rightarrow> path \<Rightarrow> meta \<Rightarrow> exn option"
  dataset_write :: "event list \<Rightarrow> path \<Rightarrow> image \<Rightarrow> exn option"

subsection \<open>Computations\<close>

text \<open>
  A computation reads the trace so far and returns its result, an abort or a value,
  with the events it added itself.
\<close>

type_synonym 'a comp = "event list \<Rightarrow> (abort + 'a) \<times> event list"

definition done_with :: "'a \<Rightarrow> 'a comp" where
  "done_with x t = (Inr x, [])"

definition raise_exn :: "exn \<Rightarrow> 'a comp" where
  "raise_exn e t = (Inl (Raised e), [])"

definition sys_exit :: "int \<Rightarrow> 'a comp" where
  "sys_exit n t = (Inl (SysExit n), [])"

definition then_run :: "'a comp \<Rightarrow> ('a \<Rightarrow> 'b comp) \<Rightarrow> 'b comp" where
  "then_run m k t =
     (case m t of
        (Inl a, evs) \<Rightarrow> (Inl a, evs)
      | (Inr x, evs) \<Rightarrow> (case k x (t @ evs) of (r, evs') \<Rightarrow> (r, evs @ evs')))"

text \<open>\<open>try: m except Exception as e: h e\<close>\<close>

definition try_except :: "'a comp \<Rightarrow> (exn \<Rightarrow> 'a comp) \<Rightarrow> 'a comp" where
  "try_except m h t =
     (case m t of
        (Inl (Raised e), evs) \<Rightarrow> (case h e (t @ evs) of (r, evs') \<Rightarrow> (r, evs @ evs'))
      | (Inl (SysExit n), evs) \<Rightarrow> (Inl (SysExit n), evs)
      | (Inr x, evs) \<Rightarrow> (Inr x, evs))"

text \<open>A call that returns nothing: the event, then the exception if the library raises.\<close>

definition effect :: "event \<Rightarrow> exn option \<Rightarrow> unit comp" where
  "effect ev r t = (case r of Some e \<Rightarrow> (Inl (Raised e), [ev]) | None \<Rightarrow> (Inr (), [ev]))"

text \<open>A call that returns a value.\<close>

definition query :: "event \<Rightarrow> exn + 'a \<Rightarrow> 'a comp" where
  "query ev r t = (case r of Inl e \<Rightarrow> (Inl (Raised e), [ev]) | Inr x \<Rightarrow> (Inr x, [ev]))"

definition emit :: "event \<Rightarrow> unit comp" where
  "emit ev t = (Inr (), [ev])"

definition call_exists :: "env \<Rightarrow> path \<Rightarrow> bool comp" where
  "call_exists E p t = query (Exists p) (Inr (os_path_exists E t p)) t"

definition call_makedirs :: "env \<Rightarrow> path \<Rightarrow> unit comp" where
  "call_makedirs E p t = effect (Makedirs p) (os_makedirs E t p) t"

definition call_listdir :: "env \<Rightarrow> path \<Rightarrow> string list comp" where
  "call_listdir E p t = query (Listdir p) (os_listdir E t p) t"

definition call_gdal_Open :: "env \<Rightarrow> path \<Rightarrow> gdal_dataset option comp" where
  "call_gdal_Open E p t = query (GdalOpen p) (gdal_Open E t p) t"

definition call_gdal_Warp :: "env \<Rightarrow> path \<Rightarrow> gdal_dataset \<Rightarrow> warp_options \<Rightarrow> unit comp" where
  "call_gdal_Warp E p ds opts t = effect (GdalWarp p ds opts) (gdal_Warp E t p ds opts) t"


subsection \<open>Strings\<close>

text \<open>\<open>s.endswith(suf)\<close>\<close>

definition endswith :: "string \<Rightarrow> string \<Rightarrow> bool" where
  "endswith s suf = (length suf \<le> length s \<and> drop (length s - length suf) s = suf)"

subsection \<open>The reprojection script\<close>

text \<open>
  \<open>get_srs_from_raster\<close>: the spatial reference is the projection text of the raster;
  \<open>gdal.Open\<close> returning \<open>None\<close> makes \<open>ds.GetProjection()\<close> an \<open>AttributeError\<close>.
\<close>

definition get_srs_from_raster :: "env \<Rightarrow> path \<Rightarrow> string comp" where
  "get_srs_from_raster E raster_path =
     then_run (call_gdal_Open E raster_path) (\<lambda>ds.
       case ds of
         None \<Rightarrow> raise_exn AttributeError
       | Some d \<Rightarrow> done_with (Projection d))"

definition reproject_raster :: "env \<Rightarrow> path \<Rightarrow> path \<Rightarrow> string \<Rightarrow> unit comp" where
  "reproject_raster E input_path output_path target_srs =
     then_run (call_gdal_Open E input_path) (\<lambda>src_ds.
       case src_ds of
         None \<Rightarrow> raise_exn AttributeError
       | Some d \<Rightarrow>
           call_gdal_Warp E output_path d
             \<lparr> format = ''GTiff'',
               srcSRS = Some (Projection d),
               dstSRS = Some target_srs,
               resampleAlg = GRA_Bilinear,
               dstNodata = Some 0,
               creationOptions = [''COMPRESS=LZW''],
               xRes = None,
               yRes = None,
               outputBounds = None,
               outputType = None,
               multithread = False,
               warpMemoryLimit = None \<rparr>)"

text \<open>The \<open>for\<close> loop of \<open>batch_reproject\<close>: no \<open>try\<close> around the call.\<close>

fun reproject_files :: "env \<Rightarrow> path \<Rightarrow> path \<Rightarrow> string \<Rightarrow> string list \<Rightarrow> unit comp" where
  "reproject_files E input_dir output_dir target_srs [] = done_with ()"
| "reproject_files E input_dir output_dir target_srs (filename # rest) =
     then_run
       (reproject_raster E (os_path_join E input_dir filename)
          (os_path_join E output_dir filename) target_srs)
       (\<lambda>_. reproject_files E input_dir output_dir target_srs rest)"

definition batch_reproject :: "env \<Rightarrow> path \<Rightarrow> path \<Rightarrow> path \<Rightarrow> unit comp" where
  "batch_reproject E input_dir output_dir reference_raster =
     then_run (get_srs_from_raster E reference_raster) (\<lambda>target_srs.
     then_run (call_makedirs E output_dir) (\<lambda>_.
     then_run (call_listdir E input_dir) (\<lambda>names.
       reproject_files E input_dir output_dir target_srs
         (filter (\<lambda>f. endswith f ''.tif'') names))))"

text \<open>The script body under \<open>if __name__ == "__main__"\<close>, after the three prompts.\<close>

definition reproject_script :: "env \<Rightarrow> path \<Rightarrow> path \<Rightarrow> path \<Rightarrow> unit comp" where
  "reproject_script E input_dir output_dir reference_raster =
     then_run (call_exists E input_dir) (\<lambda>ok.
       if \<not> ok then then_run (emit (Print (InputDirMissing input_dir))) (\<lambda>_. sys_exit 1)
       else
     then_run (call_exists E reference_raster) (\<lambda>ok.
       if \<not> ok then
         then_run (emit (Print (ReferenceMissing reference_raster))) (\<lambda>_. sys_exit 1)
       else
     then_run (call_makedirs E output_dir) (\<lambda>_.
     then_run (batch_reproject E input_dir output_dir reference_raster) (\<lambda>_.
       emit (Print AllFilesProcessed)))))"

subsection \<open>Python arithmetic and text\<close>

text \<open>
  \<open>a / b\<close> on floats raises \<open>ZeroDivisionError\<close> when \<open>b\<close> is zero; otherwise the
  result is the rounded quotient (which may be an infinity).
\<close>

definition py_truediv :: "env \<Rightarrow> pyfloat \<Rightarrow> pyfloat \<Rightarrow> pyfloat comp" where
  "py_truediv E a b =
     (if b = Finite 0 then raise_exn ZeroDivisionError else done_with (float_div E a b))"

text \<open>Dropping the fraction of a number: rounding towards zero.\<close>

definition py_trunc :: "real \<Rightarrow> int" where
  "py_trunc x = (if 0 \<le> x then \<lfloor>x\<rfloor> else \<lceil>x\<rceil>)"

text \<open>
  \<open>int(x)\<close> on a float drops the fraction; it raises \<open>OverflowError\<close> for an
  infinity and \<open>ValueError\<close> for NaN.
\<close>

definition py_int :: "pyfloat \<Rightarrow> int comp" where
  "py_int x =
     (case x of
        Finite r \<Rightarrow> done_with (py_trunc r)
      | Infinity \<Rightarrow> raise_exn OverflowError
      | NegInfinity \<Rightarrow> raise_exn OverflowError
      | NaN \<Rightarrow> raise_exn (ValueError ''cannot convert float NaN to integer''))"

text \<open>\<open>str(n)\<close> of an integer, in decimal.\<close>

fun str_nat :: "nat \<Rightarrow> string" where
  "str_nat n =
     (if n < 10 then [''0123456789'' ! n]
      else str_nat (n div 10) @ [''0123456789'' ! (n mod 10)])"

declare str_nat.simps [simp del]

definition str_int :: "int \<Rightarrow> string" where
  "str_int i = (if i < 0 then CHR ''-'' # str_nat (nat (- i)) else str_nat (nat i))"



subsection \<open>The resampling script\<close>

text \<open>
  The target raster size computed at the start of \<open>resample_tif\<close>: \<open>x_size\<close>, then
  \<open>y_size\<close>. \<open>target_res\<close> is the global the script read from the user; the loop
  below calls \<open>resample_tif\<close> only when it is finite.
\<close>

definition target_size :: "env \<Rightarrow> real \<Rightarrow> gdal_dataset \<Rightarrow> (int \<times> int) comp" where
  "target_size E target_res src_ds =
     then_run
       (py_truediv E
          (float_mul E (Finite (of_int (RasterXSize src_ds)))
             (Finite \<bar>gt1 (GeoTransform src_ds)\<bar>))
          (Finite target_res))
       (\<lambda>qx.
     then_run (py_int qx) (\<lambda>x_size.
     then_run
       (py_truediv E
          (float_mul E (Finite (of_int (RasterYSize src_ds)))
             (Finite \<bar>gt5 (GeoTransform src_ds)\<bar>))
          (Finite target_res))
       (\<lambda>qy.
     then_run (py_int qy) (\<lambda>y_size.
       done_with (x_size, y_size)))))"

text \<open>The \<open>gdal.WarpOptions(...)\<close> of \<open>resample_tif\<close>.\<close>

definition resample_warp_options :: "real \<Rightarrow> resample_alg \<Rightarrow> gdal_dataset \<Rightarrow> warp_options" where
  "resample_warp_options target_res resample_method src_ds =
     (let src_proj = Projection src_ds; src_geotrans = GeoTransform src_ds in
      \<lparr> format = ''GTiff'',
        srcSRS = None,
        dstSRS = Some src_proj,
        resampleAlg = resample_method,
        dstNodata = None,
        creationOptions = [],
        xRes = Some target_res,
        yRes = Some target_res,
        outputBounds = Some
          (gt0 src_geotrans,
           gt3 src_geotrans + gt5 src_geotrans * of_int (RasterYSize src_ds),
           gt0 src_geotrans + gt1 src_geotrans * of_int (RasterXSize src_ds),
           gt3 src_geotrans),
        outputType = Some GDT_Float32,
        multithread = True,
        warpMemoryLimit = Some 1024 \<rparr>)"


text \<open>
  \<open>resample_tif\<close>: the whole body is inside \<open>try ... except Exception\<close>, whose handler
  prints the file's base name and the exception. \<open>resample_tif_try\<close> is what stands
  under \<open>try\<close>; \<open>x_size\<close> and \<open>y_size\<close> are computed there and then not used.
\<close>

definition resample_tif_try :: "env \<Rightarrow> real \<Rightarrow> resample_alg \<Rightarrow> path \<Rightarrow> path \<Rightarrow> unit comp" where
  "resample_tif_try E target_res resample_method input_path output_path =
     then_run (call_gdal_Open E input_path) (\<lambda>src_ds.
       case src_ds of
         None \<Rightarrow> raise_exn (ValueError input_path)
       | Some d \<Rightarrow>
           then_run (target_size E target_res d) (\<lambda>(x_size, y_size).
             call_gdal_Warp E output_path d
               (resample_warp_options target_res resample_method d)))"

definition resample_tif :: "env \<Rightarrow> real \<Rightarrow> resample_alg \<Rightarrow> path \<Rightarrow> path \<Rightarrow> unit comp" where
  "resample_tif E target_res resample_method input_path output_path =
     try_except
       (resample_tif_try E target_res resample_method input_path output_path)
       (\<lambda>e. emit (Print (FileFailed (os_path_basename E input_path) e)))"

text \<open>
  The \<open>for\<close> loop at the end of the script. The name of the output starts with
  \<open>int(target_res)\<close>, computed in the loop outside every \<open>try\<close>: for an infinity
  or NaN it raises before \<open>resample_tif\<close> is called.
\<close>

fun resample_files ::
  "env \<Rightarrow> pyfloat \<Rightarrow> resample_alg \<Rightarrow> path \<Rightarrow> path \<Rightarrow> string list \<Rightarrow> unit comp" where
  "resample_files E target_res resample_method input_folder output_folder [] = done_with ()"
| "resample_files E target_res resample_method input_folder output_folder (filename # rest) =
     (case target_res of
        Finite r \<Rightarrow>
          then_run
            (resample_tif E r resample_method
               (os_path_join E input_folder filename)
               (os_path_join E output_folder (str_int (py_trunc r) @ ''m_'' @ filename)))
            (\<lambda>_. resample_files E target_res resample_method input_folder output_folder rest)
      | Infinity \<Rightarrow> raise_exn OverflowError
      | NegInfinity \<Rightarrow> raise_exn OverflowError
      | NaN \<Rightarrow> raise_exn (ValueError ''cannot convert float NaN to integer''))"

text \<open>
  What the user typed at the prompts, after the script's own \<open>strip\<close> and \<open>lower\<close>;
  \<open>ans_target_res\<close> and \<open>ans_method\<close> are \<open>None\<close> when \<open>float(...)\<close> or \<open>int(...)\<close>
  raises \<open>ValueError\<close>.
\<close>

record answers =
  ans_input_folder :: string
  ans_use_default :: string
  ans_output_folder :: string
  ans_target_res :: "pyfloat option"
  ans_method :: "int option"

definition resample_methods :: "int \<Rightarrow> resample_alg" where
  "resample_methods k =
     (if k = 1 then GRA_NearestNeighbour
      else if k = 2 then GRA_Bilinear
      else if k = 3 then GRA_Cubic
      else if k = 4 then GRA_Average
      else GRA_Mode)"

definition resample_script :: "env \<Rightarrow> answers \<Rightarrow> unit comp" where
  "resample_script E a =
     (let input_folder = ans_input_folder a in
      then_run (call_exists E input_folder) (\<lambda>ok.
        if \<not> ok then then_run (emit (Print (InputDirMissing input_folder))) (\<lambda>_. sys_exit 1)
        else
      let output_folder =
            (if ans_use_default a \<noteq> ''y'' then ans_output_folder a
             else os_path_join E input_folder ''resampled'') in
      then_run (call_makedirs E output_folder) (\<lambda>_.
        case ans_target_res a of
          None \<Rightarrow> then_run (emit (Print InvalidNumber)) (\<lambda>_. sys_exit 1)
        | Some target_res \<Rightarrow>
       (case ans_method a of
          None \<Rightarrow> then_run (emit (Print InvalidMethod)) (\<lambda>_. sys_exit 1)
        | Some method_choice \<Rightarrow>
        if method_choice < 1 \<or> method_choice > 5 then
          then_run (emit (Print InvalidMethod)) (\<lambda>_. sys_exit 1)
        else
      then_run (call_listdir E input_folder) (\<lambda>names.
      let tif_files = filter (\<lambda>f. endswith f ''.tif'') names in
      then_run (emit (Print (FoundTifFiles (length tif_files)))) (\<lambda>_.
      then_run
        (resample_files E target_res (resample_methods method_choice)
           input_folder output_folder tif_files) (\<lambda>_.
        emit (Print (ResultsSavedTo output_folder)))))))))"

subsection \<open>The batch clipping script\<close>

definition call_rasterio_open :: "env \<Rightarrow> path \<Rightarrow> rio_dataset comp" where
  "call_rasterio_open E p t = query (RioOpen p) (rasterio_open E t p) t"

text \<open>
  The raster's extent and the shapes, for a north-up raster: every vertex of every
  shape lies left of the raster, or right of it, or below it, or above it.
\<close>

definition shapes_outside_raster :: "meta \<Rightarrow> geometry list \<Rightarrow> bool" where
  "shapes_outside_raster m shapes =
     (let vs = concat shapes;
          tr = transform m;
          xmin = aff_c tr;
          xmax = aff_c tr + aff_a tr * of_int (width m);
          ymax = aff_f tr;
          ymin = aff_f tr + aff_e tr * of_int (height m)
      in aff_b tr = 0 \<and> aff_d tr = 0 \<and> 0 < aff_a tr \<and> aff_e tr < 0 \<and> vs \<noteq> [] \<and>
         (list_all (\<lambda>v. fst v \<le> xmin) vs \<or> list_all (\<lambda>v. xmax \<le> fst v) vs \<or>
          list_all (\<lambda>v. snd v \<le> ymin) vs \<or> list_all (\<lambda>v. ymax \<le> snd v) vs))"

text \<open>
  The call of \<open>rasterio.mask.mask\<close>. The function has the parameters \<open>dataset\<close>,
  \<open>shapes\<close>, \<open>all_touched\<close>, \<open>invert\<close>, \<open>nodata\<close>, \<open>filled\<close>, \<open>crop\<close>, \<open>pad\<close>,
  \<open>pad_width\<close> and \<open>indexes\<close>, and no parameter \<open>transform\<close>: a call that passes
  \<open>transform=\<close> raises \<open>TypeError\<close> before the function runs. With \<open>crop=True\<close> the
  function raises \<open>ValueError\<close> when the window of the shapes' bounds does not
  intersect the raster, which is so for shapes that lie outside it as above. What it
  answers otherwise is a parameter.
\<close>

definition call_mask ::
  "env \<Rightarrow> rio_dataset \<Rightarrow> geometry list \<Rightarrow> mask_kwargs \<Rightarrow> (image \<times> affine) comp" where
  "call_mask E src shapes kw t =
     query (RioMask src shapes kw)
       (if mask_transform kw \<noteq> None then
          Inl (TypeError ''mask() got an unexpected keyword argument transform'')
        else if crop kw \<and> shapes_outside_raster (ds_meta src) shapes then
          Inl (ValueError ''Input shapes do not overlap raster.'')
        else rasterio_mask E t src shapes kw) t"

definition call_rasterio_create :: "env \<Rightarrow> path \<Rightarrow> meta \<Rightarrow> unit comp" where
  "call_rasterio_create E p m t = effect (RioCreate p m) (rasterio_create E t p m) t"

definition call_write :: "env \<Rightarrow> path \<Rightarrow> image \<Rightarrow> unit comp" where
  "call_write E p img t = effect (RioWrite p img) (dataset_write E t p img) t"

definition call_read_file :: "env \<Rightarrow> path \<Rightarrow> geometry list comp" where
  "call_read_file E p t = query (ReadFile p) (gpd_read_file E t p) t"


text \<open>
  The two branches of \<open>clip_raster_with_shapefile\<close> that compute the masked array and
  the metadata of the output: with a reference raster (the \<open>if reference_raster\<close>
  branch) and without one.
\<close>

definition clip_snap ::
  "env \<Rightarrow> rio_dataset \<Rightarrow> geometry list \<Rightarrow> path \<Rightarrow> (image \<times> meta) comp" where
  "clip_snap E src shapes reference_raster =
     then_run (call_rasterio_open E reference_raster) (\<lambda>ref.
       let ref_transform = transform (ds_meta ref);
           ref_height = height (ds_meta ref);
           ref_width = width (ds_meta ref);
           ref_crs = crs (ds_meta ref)
       in
       then_run
         (call_mask E src shapes
            \<lparr> crop = False, all_touched = True, mask_nodata = nodata (ds_meta src),
              mask_transform = Some ref_transform \<rparr>)
         (\<lambda>(out_image, out_transform).
            done_with
              (out_image,
               (ds_meta src)
                 \<lparr> driver := ''GTiff'',
                   height := ref_height,
                   width := ref_width,
                   transform := ref_transform,
                   crs := ref_crs,
                   nodata := nodata (ds_meta src) \<rparr>)))"

definition clip_crop :: "env \<Rightarrow> rio_dataset \<Rightarrow> geometry list \<Rightarrow> (image \<times> meta) comp" where
  "clip_crop E src shapes =
     then_run
       (call_mask E src shapes
          \<lparr> crop = True, all_touched = False, mask_nodata = nodata (ds_meta src),
            mask_transform = None \<rparr>)
       (\<lambda>(out_image, out_transform).
          done_with
            (out_image,
             (ds_meta src)
               \<lparr> driver := ''GTiff'',
                 height := fst (snd (shape out_image)),
                 width := snd (snd (shape out_image)),
                 transform := out_transform,
                 nodata := nodata (ds_meta src) \<rparr>))"

text \<open>
  \<open>clip_raster_with_shapefile\<close>. \<open>reference_raster\<close> defaults to \<open>None\<close>; the test
  \<open>if reference_raster\<close> is false for \<open>None\<close> and for the empty string.
  \<open>clip_try\<close> is what stands under \<open>try\<close>; the handler logs the error and returns
  \<open>False\<close>.
\<close>

definition clip_try ::
  "env \<Rightarrow> path \<Rightarrow> path \<Rightarrow> geometry list \<Rightarrow> path option \<Rightarrow> bool comp" where
  "clip_try E input_raster output_raster shapes reference_raster =
     then_run (call_rasterio_open E input_raster) (\<lambda>src.
     then_run
       (case reference_raster of
          None \<Rightarrow> clip_crop E src shapes
        | Some r \<Rightarrow> if r \<noteq> [] then clip_snap E src shapes r else clip_crop E src shapes)
       (\<lambda>(out_image, out_meta).
     then_run (call_makedirs E (os_path_dirname E output_raster)) (\<lambda>_.
     then_run (call_rasterio_create E output_raster out_meta) (\<lambda>_.
     then_run (call_write E output_raster out_image) (\<lambda>_.
       done_with True)))))"

definition clip_raster_with_shapefile ::
  "env \<Rightarrow> path \<Rightarrow> path \<Rightarrow> geometry list \<Rightarrow> path option \<Rightarrow> bool comp" where
  "clip_raster_with_shapefile E input_raster output_raster shapes reference_raster =
     try_except
       (clip_try E input_raster output_raster shapes reference_raster)
       (\<lambda>e. then_run (emit (Log ERROR (ErrorProcessing input_raster e))) (\<lambda>_.
          done_with False))"



text \<open>
  The \<open>for\<close> loop of \<open>main\<close> with its two counters. The inner \<open>try\<close> has a handler
  that counts a failure as well.
\<close>

fun clip_files ::
  "env \<Rightarrow> path \<Rightarrow> geometry list \<Rightarrow> path \<Rightarrow> path list \<Rightarrow> nat \<times> nat \<Rightarrow> (nat \<times> nat) comp" where
  "clip_files E output_dir shapes reference_raster_path [] (successful, failed) =
     done_with (successful, failed)"
| "clip_files E output_dir shapes reference_raster_path (tif_file # rest) (successful, failed) =
     then_run
       (try_except
          (let filename = os_path_basename E tif_file;
               output_file = os_path_join E output_dir filename
           in then_run
                (clip_raster_with_shapefile E tif_file output_file shapes
                   (Some reference_raster_path))
                (\<lambda>ok. done_with
                   (if ok then (successful + 1, failed) else (successful, failed + 1))))
          (\<lambda>e. then_run
             (emit (Log ERROR (UnexpectedError (os_path_basename E tif_file) e)))
             (\<lambda>_. done_with (successful, failed + 1))))
       (clip_files E output_dir shapes reference_raster_path rest)"


subsection \<open>The affine grid of the specification\<close>

text \<open>
  The repository has no grid type of its own: the scripts read the six numbers of a
  geotransform and pass bounds and resolutions to GDAL. The specification describes
  these numbers as an \<open>AffineGrid\<close> with three pure operations; the grid is modelled
  from it so that the scripts can be compared with it.
\<close>

record affine_grid =
  origin_x :: real
  pixel_width :: real
  row_rotation :: real
  origin_y :: real
  column_rotation :: real
  pixel_height :: real

text \<open>The grid of a GDAL geotransform: the six coefficients in their order.\<close>

definition grid_of :: "geotransform \<Rightarrow> affine_grid" where
  "grid_of g =
     \<lparr> origin_x = gt0 g, pixel_width = gt1 g, row_rotation = gt2 g,
       origin_y = gt3 g, column_rotation = gt4 g, pixel_height = gt5 g \<rparr>"

text \<open>
  Modelled from the spec: the invariants of an \<open>AffineGrid\<close> (the repository declares
  no such type): pixel width positive, pixel height not zero, rotation terms zero.
\<close>

definition valid_grid :: "affine_grid \<Rightarrow> bool" where
  "valid_grid g =
     (0 < pixel_width g \<and> pixel_height g \<noteq> 0 \<and> row_rotation g = 0 \<and> column_rotation g = 0)"

text \<open>
  Modelled from the spec: \<open>pixelToWorld\<close>, absent from the repository; the six
  coefficients map a pixel column and row to world x and y.
\<close>

definition pixelToWorld :: "affine_grid \<Rightarrow> real \<times> real \<Rightarrow> real \<times> real" where
  "pixelToWorld g cr =
     (case cr of (c, r) \<Rightarrow>
        (origin_x g + c * pixel_width g + r * row_rotation g,
         origin_y g + c * column_rotation g + r * pixel_height g))"

text \<open>
  Modelled from the spec: \<open>worldToPixel\<close>, absent from the repository; the inverse
  of the forward transform of an axis-aligned grid, an error (\<open>None\<close>) when the pixel
  width or the pixel height is zero.
\<close>

definition worldToPixel :: "affine_grid \<Rightarrow> real \<times> real \<Rightarrow> (real \<times> real) option" where
  "worldToPixel g xy =
     (case xy of (x, y) \<Rightarrow>
        if pixel_width g = 0 \<or> pixel_height g = 0 then None
        else Some ((x - origin_x g) / pixel_width g, (y - origin_y g) / pixel_height g))"

text \<open>
  Modelled from the spec: \<open>computeBounds\<close>, absent from the repository; the world
  bounds \<open>(xmin, ymin, xmax, ymax)\<close> are the origin and the origin plus width times
  pixel width, height times pixel height.
\<close>

definition computeBounds :: "affine_grid \<Rightarrow> int \<Rightarrow> int \<Rightarrow> real \<times> real \<times> real \<times> real" where
  "computeBounds g w h =
     (let x1 = origin_x g + of_int w * pixel_width g;
          y1 = origin_y g + of_int h * pixel_height g
      in (min (origin_x g) x1, min (origin_y g) y1, max (origin_x g) x1, max (origin_y g) y1))"

text \<open>
  Modelled from the spec: the output grid of a resample, which no code of the
  repository builds (GDAL does): the source's origin, pixel width and the magnitude of
  the pixel height set to the target resolution, the sign of the pixel height kept.
\<close>

definition resample_grid :: "affine_grid \<Rightarrow> real \<Rightarrow> affine_grid" where
  "resample_grid g target_res =
     g \<lparr> pixel_width := target_res, pixel_height := sgn (pixel_height g) * target_res \<rparr>"

subsection \<open>A small world to run the scripts in\<close>

text \<open>
  A directory \<open>in\<close> with four entries, of which \<open>a.tif\<close> is corrupt: GDAL answers
  \<open>None\<close> for it and rasterio raises. Every other raster is 10 by 10 pixels of size 1,
  north-up, covering (0, 0, 10, 10); the reference raster \<open>ref.tif\<close> is 100 by 80
  pixels in another reference system. The polygon \<open>corner\<close> is the top left pixel of
  the rasters, the polygon \<open>far\<close> lies outside them. Where the mask is asked, it
  answers for \<open>corner\<close>: with \<open>crop=True\<close> the one pixel, otherwise the whole array.
\<close>

definition posix_join :: "path \<Rightarrow> string \<Rightarrow> path" where
  "posix_join a b =
     (if b \<noteq> [] \<and> hd b = CHR ''/'' then b
      else if a = [] \<or> last a = CHR ''/'' then a @ b
      else a @ ''/'' @ b)"

definition posix_basename :: "path \<Rightarrow> string" where
  "posix_basename p = rev (takeWhile (\<lambda>c. c \<noteq> CHR ''/'') (rev p))"

definition posix_dirname :: "path \<Rightarrow> path" where
  "posix_dirname p = rev (drop 1 (dropWhile (\<lambda>c. c \<noteq> CHR ''/'') (rev p)))"

definition ds10 :: gdal_dataset where
  "ds10 =
     \<lparr> RasterXSize = 10, RasterYSize = 10,
       GeoTransform = \<lparr> gt0 = 0, gt1 = 1, gt2 = 0, gt3 = 10, gt4 = 0, gt5 = - 1 \<rparr>,
       Projection = ''EPSG:4326'', NoDataValue = Some (- 9999) \<rparr>"

definition src10 :: rio_dataset where
  "src10 =
     \<lparr> ds_meta =
         \<lparr> driver = ''GTiff'', dtype = ''float32'', nodata = Some (- 9999),
           width = 10, height = 10, count = 1, crs = Some ''EPSG:4326'',
           transform =
             \<lparr> aff_a = 1, aff_b = 0, aff_c = 0, aff_d = 0, aff_e = - 1, aff_f = 10 \<rparr> \<rparr>,
       ds_pixels = \<lparr> shape = (1, 10, 10), pixels = replicate 100 1 \<rparr> \<rparr>"

definition ref100 :: rio_dataset where
  "ref100 =
     \<lparr> ds_meta =
         \<lparr> driver = ''GTiff'', dtype = ''int16'', nodata = None,
           width = 100, height = 80, count = 1, crs = Some ''EPSG:4547'',
           transform =
             \<lparr> aff_a = 30, aff_b = 0, aff_c = 500000, aff_d = 0, aff_e = - 30,
               aff_f = 3500000 \<rparr> \<rparr>,
       ds_pixels = \<lparr> shape = (1, 80, 100), pixels = replicate 8000 0 \<rparr> \<rparr>"

definition corner :: geometry where
  "corner = [(0, 9), (1, 9), (1, 10), (0, 10)]"


text \<open>
  The float arithmetic of the small world: finite numbers multiply and divide without
  rounding. For the few numbers used below (10 times 1, divided by 6 and by -30) the
  rounded results are finite as well, and \<open>int\<close> of them is the same.
\<close>

definition plain_mul :: "pyfloat \<Rightarrow> pyfloat \<Rightarrow> pyfloat" where
  "plain_mul a b = (case (a, b) of (Finite x, Finite y) \<Rightarrow> Finite (x * y) | _ \<Rightarrow> NaN)"

definition plain_div :: "pyfloat \<Rightarrow> pyfloat \<Rightarrow> pyfloat" where
  "plain_div a b = (case (a, b) of (Finite x, Finite y) \<Rightarrow> Finite (x / y) | _ \<Rightarrow> NaN)"

text \<open>
  A division that overflows as the division of doubles does: a quotient of magnitude
  2^1024 or more is an infinity. It does not round otherwise.
\<close>

definition overflowing_div :: "pyfloat \<Rightarrow> pyfloat \<Rightarrow> pyfloat" where
  "overflowing_div a b =
     (case (a, b) of
        (Finite x, Finite y) \<Rightarrow>
          if 2 ^ 1024 \<le> x / y then Infinity
          else if x / y \<le> - (2 ^ 1024) then NegInfinity
          else Finite (x / y)
      | _ \<Rightarrow> NaN)"

definition test_env :: env where
  "test_env =
     \<lparr> float_mul = plain_mul,
       float_div = plain_div,
       os_path_exists = (\<lambda>t p. True),
       os_makedirs = (\<lambda>t p. None),
       os_listdir = (\<lambda>t p. Inr [''a.tif'', ''B.TIF'', ''c.tiff'', ''d.tif'']),
       os_path_join = posix_join,
       os_path_basename = posix_basename,
       os_path_dirname = posix_dirname,
       os_path_normcase = (\<lambda>s. s),
       gdal_Open = (\<lambda>t p. Inr (if p = ''in/a.tif'' then None else Some ds10)),
       gdal_Warp = (\<lambda>t p ds opts. None),
       gpd_read_file = (\<lambda>t p. Inr [corner]),
       rasterio_open = (\<lambda>t p.
         if p = ''in/a.tif'' then Inl (LibraryError ''not recognized'')
         else if p = ''ref.tif'' then Inr ref100
         else Inr src10),
       rasterio_mask = (\<lambda>t src shapes kw.
         if crop kw then Inr (\<lparr> shape = (1, 1, 1), pixels = [1] \<rparr>, transform (ds_meta src))
         else Inr (ds_pixels src, transform (ds_meta src))),
       rasterio_create = (\<lambda>t p m. None),
       dataset_write = (\<lambda>t p img. None) \<rparr>"


section \<open>Properties\<close>

lemmas prim_defs = then_run_def try_except_def done_with_def raise_exn_def sys_exit_def
  effect_def query_def emit_def call_exists_def call_makedirs_def call_listdir_def
  call_gdal_Open_def call_gdal_Warp_def call_rasterio_open_def call_mask_def
  call_rasterio_create_def call_write_def call_read_file_def

text \<open>The answers of the small world.\<close>

lemma test_env_simps:
  "float_mul test_env = plain_mul"
  "float_div test_env = plain_div"
  "os_path_exists test_env t p = True"
  "os_makedirs test_env t p = None"
  "os_listdir test_env t p = Inr [''a.tif'', ''B.TIF'', ''c.tiff'', ''d.tif'']"
  "os_path_join test_env = posix_join"
  "os_path_basename test_env = posix_basename"
  "os_path_dirname test_env = posix_dirname"
  "os_path_normcase test_env s = s"
  "gdal_Open test_env t p = Inr (if p = ''in/a.tif'' then None else Some ds10)"
  "gdal_Warp test_env t p ds opts = None"
  "gpd_read_file test_env t p = Inr [corner]"
  "rasterio_open test_env t p =
     (if p = ''in/a.tif'' then Inl (LibraryError ''not recognized'')
      else if p = ''ref.tif'' then Inr ref100 else Inr src10)"
  "rasterio_mask test_env t src shapes kw =
     (if crop kw then Inr (\<lparr> shape = (1, 1, 1), pixels = [1] \<rparr>, transform (ds_meta src))
      else Inr (ds_pixels src, transform (ds_meta src)))"
  "rasterio_create test_env t p m = None"
  "dataset_write test_env t p img = None"
  by (simp_all add: test_env_def)

lemmas run_defs = prim_defs Let_def test_env_simps posix_join_def posix_basename_def posix_dirname_def
  plain_mul_def plain_div_def

subsection \<open>Events of a sequence and of a handler\<close>

lemma then_run_events:
  "ev \<in> set (snd (then_run m k t)) \<Longrightarrow>
     ev \<in> set (snd (m t)) \<or> (\<exists>x. fst (m t) = Inr x \<and> ev \<in> set (snd (k x (t @ snd (m t)))))"
  by (auto simp: then_run_def split: prod.splits sum.splits)


subsection \<open>Reprojection\<close>

text \<open>
  C8. Whatever the input raster and the target reference, every warp that
  \<open>reproject_raster\<close> asks GDAL for carries the destination nodata value 0: the value
  is a constant of the code, it is not read from the source raster (whose own nodata
  value does not enter the options) and no argument of the function sets it.
\<close>

theorem reproject_dstNodata_zero:
  "GdalWarp p ds opts \<in> set (snd (reproject_raster E input_path output_path target_srs t))
     \<Longrightarrow> dstNodata opts = Some 0"
  by (auto simp: reproject_raster_def call_gdal_Open_def call_gdal_Warp_def query_def
      effect_def raise_exn_def
      dest!: then_run_events split: sum.splits option.splits)

text \<open>
  The raster \<open>in/d.tif\<close> of the small world declares the nodata value -9999; the warp
  requested for it has the nodata value 0.
\<close>

theorem reproject_dstNodata_zero_witness:
  "GdalWarp ''out/d.tif'' ds10
     \<lparr> format = ''GTiff'', srcSRS = Some ''EPSG:4326'', dstSRS = Some ''EPSG:4547'',
       resampleAlg = GRA_Bilinear, dstNodata = Some 0, creationOptions = [''COMPRESS=LZW''],
       xRes = None, yRes = None, outputBounds = None, outputType = None,
       multithread = False, warpMemoryLimit = None \<rparr>
     \<in> set (snd (reproject_raster test_env ''in/d.tif'' ''out/d.tif'' ''EPSG:4547'' []))
   \<and> NoDataValue ds10 = Some (- 9999)
   \<and> dstNodata \<lparr> format = ''GTiff'', srcSRS = Some ''EPSG:4326'', dstSRS = Some ''EPSG:4547'',
       resampleAlg = GRA_Bilinear, dstNodata = Some 0, creationOptions = [''COMPRESS=LZW''],
       xRes = None, yRes = None, outputBounds = None, outputType = None,
       multithread = False, warpMemoryLimit = None \<rparr> = Some 0"
proof -
  have h: "GdalWarp ''out/d.tif'' ds10
     \<lparr> format = ''GTiff'', srcSRS = Some ''EPSG:4326'', dstSRS = Some ''EPSG:4547'',
       resampleAlg = GRA_Bilinear, dstNodata = Some 0, creationOptions = [''COMPRESS=LZW''],
       xRes = None, yRes = None, outputBounds = None, outputType = None,
       multithread = False, warpMemoryLimit = None \<rparr>
     \<in> set (snd (reproject_raster test_env ''in/d.tif'' ''out/d.tif'' ''EPSG:4547'' []))"
    by (simp add: reproject_raster_def prim_defs test_env_def ds10_def)
  from reproject_dstNodata_zero [OF h] h show ?thesis by (simp add: ds10_def)
qed

subsection \<open>The affine grid\<close>

text \<open>
  C7. For every valid grid (pixel width positive, pixel height not zero, rotation
  terms zero) and every pixel coordinate \<open>(c, r)\<close>, \<open>worldToPixel\<close> of
  \<open>pixelToWorld (c, r)\<close> is defined and is \<open>(c, r)\<close>. Over the real numbers the
  round trip is exact, so it holds within every tolerance.
\<close>

theorem world_pixel_round_trip:
  "valid_grid g \<Longrightarrow> worldToPixel g (pixelToWorld g (c, r)) = Some (c, r)"
  by (simp add: valid_grid_def worldToPixel_def pixelToWorld_def)

text \<open>The grid of the 10 by 10 raster: pixel (3, 4) is the world point (3, 6).\<close>

theorem world_pixel_round_trip_witness:
  "valid_grid (grid_of (GeoTransform ds10))
   \<and> pixelToWorld (grid_of (GeoTransform ds10)) (3, 4) = (3, 6)
   \<and> worldToPixel (grid_of (GeoTransform ds10)) (3, 6) = Some (3, 4)"
proof -
  have v: "valid_grid (grid_of (GeoTransform ds10))"
    by (simp add: valid_grid_def grid_of_def ds10_def)
  have p: "pixelToWorld (grid_of (GeoTransform ds10)) (3, 4) = (3, 6)"
    by (simp add: pixelToWorld_def grid_of_def ds10_def)
  from world_pixel_round_trip [OF v, of 3 4] v p show ?thesis by simp
qed

subsection \<open>Resampling: what is asked of the warp\<close>

text \<open>
  The size computation adds no event and does not exit; with the target resolution 0 it
  raises \<open>ZeroDivisionError\<close>.
\<close>

lemma py_int_events: "snd (py_int x t) = []"
  by (cases x) (simp_all add: py_int_def prim_defs)

lemma py_truediv_events: "snd (py_truediv E a b t) = []"
  by (simp add: py_truediv_def prim_defs)

lemma target_size_events: "snd (target_size E target_res d t) = []"
  by (auto simp: target_size_def py_truediv_def py_int_def prim_defs
      split: prod.splits sum.splits pyfloat.splits)

lemma target_size_no_exit: "fst (target_size E target_res d t) \<noteq> Inl (SysExit n)"
  by (auto simp: target_size_def py_truediv_def py_int_def prim_defs
      split: prod.splits sum.splits pyfloat.splits)

lemma target_size_zero: "target_size E 0 d t = (Inl (Raised ZeroDivisionError), [])"
  by (simp add: target_size_def py_truediv_def prim_defs)

lemma target_size_pair:
  "target_size E target_res d t = (fst (target_size E target_res d t), [])"
  by (metis prod.collapse target_size_events)

lemma resample_try_opened:
  assumes "gdal_Open E t inp = Inr (Some d)"
    and "target_size E target_res d (t @ [GdalOpen inp]) = (r, [])"
  shows "resample_tif_try E target_res m inp out t =
     (case r of
        Inl a \<Rightarrow> (Inl a, [GdalOpen inp])
      | Inr sz \<Rightarrow>
          (case gdal_Warp E (t @ [GdalOpen inp]) out d (resample_warp_options target_res m d) of
             Some e \<Rightarrow>
               (Inl (Raised e),
                [GdalOpen inp, GdalWarp out d (resample_warp_options target_res m d)])
           | None \<Rightarrow>
               (Inr (),
                [GdalOpen inp, GdalWarp out d (resample_warp_options target_res m d)])))"
  using assms
  by (simp add: resample_tif_try_def then_run_def call_gdal_Open_def query_def
      call_gdal_Warp_def effect_def split: sum.split option.split prod.split)


text \<open>
  \<open>resample_tif_try\<close> by cases: the file does not open, the size computation raises,
  or the warp is called.
\<close>

lemma resample_tif_try_cases:
  "resample_tif_try E target_res m inp out t =
     (case gdal_Open E t inp of
        Inl e \<Rightarrow> (Inl (Raised e), [GdalOpen inp])
      | Inr None \<Rightarrow> (Inl (Raised (ValueError inp)), [GdalOpen inp])
      | Inr (Some d) \<Rightarrow>
          (case fst (target_size E target_res d (t @ [GdalOpen inp])) of
             Inl a \<Rightarrow> (Inl a, [GdalOpen inp])
           | Inr sz \<Rightarrow>
               (case gdal_Warp E (t @ [GdalOpen inp]) out d
                       (resample_warp_options target_res m d) of
                  Some e \<Rightarrow>
                    (Inl (Raised e),
                     [GdalOpen inp, GdalWarp out d (resample_warp_options target_res m d)])
                | None \<Rightarrow>
                    (Inr (),
                     [GdalOpen inp, GdalWarp out d (resample_warp_options target_res m d)]))))"
proof (cases "gdal_Open E t inp")
  case (Inl e)
  then show ?thesis
    by (simp add: resample_tif_try_def then_run_def call_gdal_Open_def query_def)
next
  case (Inr od)
  show ?thesis
  proof (cases od)
    case None
    with Inr show ?thesis
      by (simp add: resample_tif_try_def then_run_def call_gdal_Open_def query_def
          raise_exn_def)
  next
    case (Some d)
    with Inr have o: "gdal_Open E t inp = Inr (Some d)" by simp
    show ?thesis
      unfolding resample_try_opened [OF o target_size_pair] by (simp add: o)
  qed
qed

lemma resample_tif_warp_event:
  assumes "GdalWarp p ds opts \<in> set (snd (resample_tif E target_res m inp out t))"
  shows "p = out \<and> opts = resample_warp_options target_res m ds \<and> target_res \<noteq> 0
     \<and> gdal_Open E t inp = Inr (Some ds)"
  using assms
  by (auto simp: resample_tif_def resample_tif_try_cases try_except_def emit_def
      target_size_zero split: sum.splits option.splits abort.splits)

text \<open>
  C3, as the code has it. Every warp that \<open>resample_tif\<close> asks for has, as its
  \<open>outputBounds\<close>, the world bounds of the source raster, computed from the source's
  geotransform and size (for a north-up source: pixel width positive, pixel height
  negative, size not negative), and the target resolution as pixel size on both axes.
  The bounds do not depend on the target resolution or on the computed pixel counts.
  The grid of the written raster is GDAL's.
\<close>

theorem resample_requests_source_bounds:
  assumes "GdalWarp p ds opts \<in> set (snd (resample_tif E target_res m inp out t))"
    and "0 < gt1 (GeoTransform ds)" and "gt5 (GeoTransform ds) < 0"
    and "0 \<le> RasterXSize ds" and "0 \<le> RasterYSize ds"
  shows "outputBounds opts =
           Some (computeBounds (grid_of (GeoTransform ds)) (RasterXSize ds) (RasterYSize ds))
     \<and> xRes opts = Some target_res \<and> yRes opts = Some target_res"
proof -
  from resample_tif_warp_event [OF assms(1)]
  have o: "opts = resample_warp_options target_res m ds" by simp
  have x: "0 \<le> real_of_int (RasterXSize ds) * gt1 (GeoTransform ds)"
    using assms(2,4) by simp
  have y: "real_of_int (RasterYSize ds) * gt5 (GeoTransform ds) \<le> 0"
    using assms(3,5) by (simp add: mult_nonneg_nonpos)
  from x y show ?thesis
    by (simp add: o resample_warp_options_def computeBounds_def grid_of_def Let_def
        min_def max_def mult.commute)
qed

text \<open>The size computation in the small world, at the resolutions 6 and -30.\<close>

lemma target_size_ds10_6: "target_size test_env 6 ds10 t = (Inr (1, 1), [])"
  by (simp add: target_size_def py_truediv_def py_int_def py_trunc_def run_defs ds10_def)

lemma ceiling_minus_third: "\<lceil>- (1 / 3 :: real)\<rceil> = 0"
  by (rule ceiling_unique) simp_all

lemma target_size_ds10_m30: "target_size test_env (- 30) ds10 t = (Inr (0, 0), [])"
  by (simp add: target_size_def py_truediv_def py_int_def py_trunc_def run_defs ds10_def
      ceiling_minus_third)

text \<open>The 10 by 10 raster at target resolution 6: the bounds asked for are (0, 0, 10, 10).\<close>

theorem resample_requests_source_bounds_witness:
  "GdalWarp ''out/6m_d.tif'' ds10 (resample_warp_options 6 GRA_Bilinear ds10)
     \<in> set (snd (resample_tif test_env 6 GRA_Bilinear ''in/d.tif'' ''out/6m_d.tif'' []))
   \<and> 0 < gt1 (GeoTransform ds10) \<and> gt5 (GeoTransform ds10) < 0
   \<and> 0 \<le> RasterXSize ds10 \<and> 0 \<le> RasterYSize ds10
   \<and> outputBounds (resample_warp_options 6 GRA_Bilinear ds10) = Some (0, 0, 10, 10)
   \<and> computeBounds (grid_of (GeoTransform ds10)) 10 10 = (0, 0, 10, 10)
   \<and> xRes (resample_warp_options 6 GRA_Bilinear ds10) = Some 6"
proof -
  have a: "GdalWarp ''out/6m_d.tif'' ds10 (resample_warp_options 6 GRA_Bilinear ds10)
     \<in> set (snd (resample_tif test_env 6 GRA_Bilinear ''in/d.tif'' ''out/6m_d.tif'' []))"
    by (simp add: resample_tif_def resample_tif_try_cases try_except_def test_env_simps
        target_size_ds10_6)
  have b: "0 < gt1 (GeoTransform ds10)" by (simp add: ds10_def)
  have c: "gt5 (GeoTransform ds10) < 0" by (simp add: ds10_def)
  have d: "0 \<le> RasterXSize ds10" by (simp add: ds10_def)
  have e: "0 \<le> RasterYSize ds10" by (simp add: ds10_def)
  have f: "computeBounds (grid_of (GeoTransform ds10)) 10 10 = (0, 0, 10, 10)"
    by (simp add: computeBounds_def grid_of_def ds10_def)
  have g: "RasterXSize ds10 = 10 \<and> RasterYSize ds10 = 10" by (simp add: ds10_def)
  from resample_requests_source_bounds [OF a b c d e] a b c d e f g show ?thesis by simp
qed

text \<open>
  C3 as stated fails there. The source covers (0, 0, 10, 10). A grid with the source's
  origin and pixel size 6 covers (0, -2, 12, 10) with the 2 by 2 pixels that rounding
  10/6 gives, and (0, 4, 6, 10) with the 1 by 1 pixels the code computes: with a pixel
  size of 6 no whole number of pixels spans an extent of 10.
\<close>

theorem resample_bounds_counterexample:
  "target_size test_env 6 ds10 [] = (Inr (1, 1), [])
   \<and> round (of_int (RasterXSize ds10) * \<bar>gt1 (GeoTransform ds10)\<bar> / (6::real)) = 2
   \<and> round (of_int (RasterYSize ds10) * \<bar>gt5 (GeoTransform ds10)\<bar> / (6::real)) = 2
   \<and> computeBounds (grid_of (GeoTransform ds10)) (RasterXSize ds10) (RasterYSize ds10)
       = (0, 0, 10, 10)
   \<and> computeBounds (resample_grid (grid_of (GeoTransform ds10)) 6) 2 2 = (0, - 2, 12, 10)
   \<and> computeBounds (resample_grid (grid_of (GeoTransform ds10)) 6) 1 1 = (0, 4, 6, 10)
   \<and> computeBounds (resample_grid (grid_of (GeoTransform ds10)) 6) 2 2
       \<noteq> computeBounds (grid_of (GeoTransform ds10)) (RasterXSize ds10) (RasterYSize ds10)"
proof -
  have "round (of_int (RasterXSize ds10) * \<bar>gt1 (GeoTransform ds10)\<bar> / (6::real)) = 2
   \<and> round (of_int (RasterYSize ds10) * \<bar>gt5 (GeoTransform ds10)\<bar> / (6::real)) = 2
   \<and> computeBounds (grid_of (GeoTransform ds10)) (RasterXSize ds10) (RasterYSize ds10)
       = (0, 0, 10, 10)
   \<and> computeBounds (resample_grid (grid_of (GeoTransform ds10)) 6) 2 2 = (0, - 2, 12, 10)
   \<and> computeBounds (resample_grid (grid_of (GeoTransform ds10)) 6) 1 1 = (0, 4, 6, 10)
   \<and> computeBounds (resample_grid (grid_of (GeoTransform ds10)) 6) 2 2
       \<noteq> computeBounds (grid_of (GeoTransform ds10)) (RasterXSize ds10) (RasterYSize ds10)"
    by (simp add: ds10_def round_def computeBounds_def resample_grid_def grid_of_def)
  with target_size_ds10_6 [of "[]"] show ?thesis by blast
qed

subsection \<open>Resampling: the size of the output\<close>




subsection \<open>Resampling with a target resolution that is not positive\<close>

lemma str_int_minus_30: "str_int (py_trunc (- 30)) = ''-30''"
  by (simp add: str_int_def py_trunc_def str_nat.simps [of 30] str_nat.simps [of 3])

lemma target_size_overflow:
  assumes "float_div E
      (float_mul E (Finite (of_int (RasterXSize d))) (Finite \<bar>gt1 (GeoTransform d)\<bar>))
      (Finite r) = NegInfinity"
    and "r \<noteq> 0"
  shows "target_size E r d t = (Inl (Raised OverflowError), [])"
  using assms by (simp add: target_size_def py_truediv_def py_int_def prim_defs)

lemma target_size_tiny:
  "target_size (test_env \<lparr> float_div := overflowing_div \<rparr>) (- (1 / 2 ^ 1030)) ds10 t =
     (Inl (Raised OverflowError), [])"
proof (rule target_size_overflow)
  show "float_div (test_env \<lparr> float_div := overflowing_div \<rparr>)
      (float_mul (test_env \<lparr> float_div := overflowing_div \<rparr>)
         (Finite (of_int (RasterXSize ds10))) (Finite \<bar>gt1 (GeoTransform ds10)\<bar>))
      (Finite (- (1 / 2 ^ 1030))) = NegInfinity"
    by (simp add: test_env_simps plain_mul_def ds10_def overflowing_div_def)
  show "- (1 / 2 ^ 1030) \<noteq> (0::real)" by simp
qed

text \<open>
  C4, as the code has it. The script does not check the sign of the target resolution.
  With the target resolution 0, \<open>resample_tif\<close> asks for no warp, so no output is
  written: the division raises \<open>ZeroDivisionError\<close>, the handler prints it against the
  file, and the function returns normally. With a target resolution below zero, a file
  that opens is handed to \<open>gdal.Warp\<close> with that resolution as \<open>xRes\<close> and \<open>yRes\<close>,
  provided the size computation before it returns; where that raises (the float
  quotient overflows), the handler prints the error against the file and no warp is
  asked for.
\<close>

theorem resample_nonpositive_resolution:
  "(target_res = 0 \<longrightarrow>
      fst (resample_tif E target_res m inp out t) = Inr ()
      \<and> GdalWarp p ds opts \<notin> set (snd (resample_tif E target_res m inp out t))
      \<and> (gdal_Open E t inp = Inr (Some d) \<longrightarrow>
           snd (resample_tif E target_res m inp out t) =
             [GdalOpen inp, Print (FileFailed (os_path_basename E inp) ZeroDivisionError)]))
   \<and> (target_res < 0 \<and> gdal_Open E t inp = Inr (Some d)
        \<and> fst (target_size E target_res d (t @ [GdalOpen inp])) = Inr sz \<longrightarrow>
        GdalWarp out d (resample_warp_options target_res m d)
          \<in> set (snd (resample_tif E target_res m inp out t))
        \<and> xRes (resample_warp_options target_res m d) = Some target_res
        \<and> yRes (resample_warp_options target_res m d) = Some target_res)
   \<and> (target_res < 0 \<and> gdal_Open E t inp = Inr (Some d)
        \<and> fst (target_size E target_res d (t @ [GdalOpen inp])) = Inl (Raised e) \<longrightarrow>
        snd (resample_tif E target_res m inp out t) =
          [GdalOpen inp, Print (FileFailed (os_path_basename E inp) e)])"
  by (auto simp: resample_tif_def resample_tif_try_cases try_except_def emit_def
      resample_warp_options_def Let_def target_size_zero
      split: sum.splits option.splits abort.splits)

text \<open>
  The raster \<open>in/d.tif\<close> of the small world at the resolutions 0 and -30, and at
  the resolution -2^-1030 with a division that overflows: 10 / -2^-1030 is below every
  double.
\<close>

theorem resample_nonpositive_resolution_witness:
  "gdal_Open test_env [] ''in/d.tif'' = Inr (Some ds10)
   \<and> resample_tif test_env 0 GRA_Bilinear ''in/d.tif'' ''out/0m_d.tif'' [] =
       (Inr (), [GdalOpen ''in/d.tif'', Print (FileFailed ''d.tif'' ZeroDivisionError)])
   \<and> (- 30 :: real) < 0
   \<and> fst (target_size test_env (- 30) ds10 ([] @ [GdalOpen ''in/d.tif''])) = Inr (0, 0)
   \<and> GdalWarp ''out/-30m_d.tif'' ds10 (resample_warp_options (- 30) GRA_Bilinear ds10)
       \<in> set (snd (resample_tif test_env (- 30) GRA_Bilinear ''in/d.tif'' ''out/-30m_d.tif'' []))
   \<and> (- (1 / 2 ^ 1030) :: real) < 0
   \<and> fst (target_size (test_env \<lparr> float_div := overflowing_div \<rparr>) (- (1 / 2 ^ 1030)) ds10
            ([] @ [GdalOpen ''in/d.tif''])) = Inl (Raised OverflowError)
   \<and> snd (resample_tif (test_env \<lparr> float_div := overflowing_div \<rparr>) (- (1 / 2 ^ 1030))
            GRA_Bilinear ''in/d.tif'' ''out/0m_d.tif'' [])
       = [GdalOpen ''in/d.tif'', Print (FileFailed ''d.tif'' OverflowError)]"
proof -
  let ?E = "test_env \<lparr> float_div := overflowing_div \<rparr>"
  let ?r = "- (1 / 2 ^ 1030) :: real"
  have a: "gdal_Open test_env [] ''in/d.tif'' = Inr (Some ds10)"
    "gdal_Open ?E [] ''in/d.tif'' = Inr (Some ds10)"
    by (simp_all add: test_env_simps)
  have b: "(- 30 :: real) < 0" "?r < 0" by simp_all
  have d: "fst (target_size test_env (- 30) ds10 ([] @ [GdalOpen ''in/d.tif''])) = Inr (0, 0)"
    by (simp add: target_size_ds10_m30)
  have e: "fst (target_size ?E ?r ds10 ([] @ [GdalOpen ''in/d.tif'']))
      = Inl (Raised OverflowError)"
    by (simp only: target_size_tiny fst_conv)
  have f: "os_path_basename ?E ''in/d.tif'' = ''d.tif''"
    by (simp add: test_env_simps posix_basename_def)
  note T1 = resample_nonpositive_resolution
         [of 0 test_env GRA_Bilinear "''in/d.tif''" "''out/0m_d.tif''" "[]" _ _ _ ds10]
  note T2 = resample_nonpositive_resolution
         [of "- 30" test_env GRA_Bilinear "''in/d.tif''" "''out/-30m_d.tif''" "[]" _ _ _ ds10
            "(0, 0)"]
  note T3 = resample_nonpositive_resolution
         [of ?r ?E GRA_Bilinear "''in/d.tif''" "''out/0m_d.tif''" "[]" _ _ _ ds10
            _ OverflowError]
  have w2: "GdalWarp ''out/-30m_d.tif'' ds10 (resample_warp_options (- 30) GRA_Bilinear ds10)
       \<in> set (snd (resample_tif test_env (- 30) GRA_Bilinear ''in/d.tif'' ''out/-30m_d.tif'' []))"
    using T2 a(1) b(1) d by blast
  have "snd (resample_tif ?E ?r GRA_Bilinear ''in/d.tif'' ''out/0m_d.tif'' [])
       = [GdalOpen ''in/d.tif'', Print (FileFailed (os_path_basename ?E ''in/d.tif'') OverflowError)]"
    using T3 a(2) b(2) e by blast
  then have w3: "snd (resample_tif ?E ?r GRA_Bilinear ''in/d.tif'' ''out/0m_d.tif'' [])
       = [GdalOpen ''in/d.tif'', Print (FileFailed ''d.tif'' OverflowError)]"
    by (simp only: f)
  have "snd (resample_tif test_env 0 GRA_Bilinear ''in/d.tif'' ''out/0m_d.tif'' []) =
      [GdalOpen ''in/d.tif'',
       Print (FileFailed (os_path_basename test_env ''in/d.tif'') ZeroDivisionError)]"
    using T1 a(1) by blast
  moreover have "fst (resample_tif test_env 0 GRA_Bilinear ''in/d.tif'' ''out/0m_d.tif'' [])
      = Inr ()"
    using T1 by blast
  ultimately have c: "resample_tif test_env 0 GRA_Bilinear ''in/d.tif'' ''out/0m_d.tif'' [] =
       (Inr (), [GdalOpen ''in/d.tif'', Print (FileFailed ''d.tif'' ZeroDivisionError)])"
    by (simp add: prod_eq_iff test_env_simps posix_basename_def)
  show ?thesis
    by (intro conjI a(1) c b d w2 e w3)
qed

text \<open>
  C4 as stated fails at the target resolution -30: the script ends normally, the only
  failure it prints is the corrupt file, and it asks GDAL to warp \<open>in/d.tif\<close> into
  \<open>out/-30m_d.tif\<close> with the resolution -30.
\<close>

theorem negative_resolution_counterexample:
  "resample_script test_env
     \<lparr> ans_input_folder = ''in'', ans_use_default = ''n'', ans_output_folder = ''out'',
       ans_target_res = Some (Finite (- 30)), ans_method = Some 2 \<rparr> [] =
     (Inr (),
      [Exists ''in'', Makedirs ''out'', Listdir ''in'', Print (FoundTifFiles 2),
       GdalOpen ''in/a.tif'', Print (FileFailed ''a.tif'' (ValueError ''in/a.tif'')),
       GdalOpen ''in/d.tif'',
       GdalWarp ''out/-30m_d.tif'' ds10 (resample_warp_options (- 30) GRA_Bilinear ds10),
       Print (ResultsSavedTo ''out'')])
   \<and> xRes (resample_warp_options (- 30) GRA_Bilinear ds10) = Some (- 30)"
  by (simp add: resample_script_def resample_tif_def resample_tif_try_cases prim_defs Let_def
      test_env_simps posix_join_def posix_basename_def target_size_ds10_m30
      endswith_def resample_methods_def str_int_minus_30 resample_warp_options_def)

subsection \<open>What a computation emits\<close>









subsection \<open>Clipping with a reference raster\<close>

text \<open>
  With a reference raster, \<open>clip_raster_with_shapefile\<close> opens the input and the
  reference and calls \<open>rasterio.mask.mask\<close> with \<open>transform=ref_transform\<close>. The
  function has no such parameter, so the call raises \<open>TypeError\<close>; the handler logs
  it and returns \<open>False\<close>. The lines that set the height, width, transform and CRS
  of the output and that create and write it are never reached.
\<close>

lemma clip_snap_cases:
  "clip_snap E src shapes r t =
     (case rasterio_open E t r of
        Inl e \<Rightarrow> (Inl (Raised e), [RioOpen r])
      | Inr ref \<Rightarrow>
          (Inl (Raised (TypeError ''mask() got an unexpected keyword argument transform'')),
           [RioOpen r,
            RioMask src shapes
              \<lparr> crop = False, all_touched = True, mask_nodata = nodata (ds_meta src),
                mask_transform = Some (transform (ds_meta ref)) \<rparr>]))"
  by (simp add: clip_snap_def prim_defs Let_def split: sum.splits)

lemma clip_snap_mode:
  assumes "r \<noteq> []"
  shows "clip_raster_with_shapefile E inp out shapes (Some r) t =
     (case rasterio_open E t inp of
        Inl e \<Rightarrow> (Inr False, [RioOpen inp, Log ERROR (ErrorProcessing inp e)])
      | Inr src \<Rightarrow>
          (case rasterio_open E (t @ [RioOpen inp]) r of
             Inl e \<Rightarrow> (Inr False, [RioOpen inp, RioOpen r, Log ERROR (ErrorProcessing inp e)])
           | Inr ref \<Rightarrow>
               (Inr False,
                [RioOpen inp, RioOpen r,
                 RioMask src shapes
                   \<lparr> crop = False, all_touched = True, mask_nodata = nodata (ds_meta src),
                     mask_transform = Some (transform (ds_meta ref)) \<rparr>,
                 Log ERROR (ErrorProcessing inp
                   (TypeError ''mask() got an unexpected keyword argument transform''))])))"
  using assms
  by (simp add: clip_raster_with_shapefile_def clip_try_def clip_snap_cases then_run_def
      try_except_def call_rasterio_open_def query_def emit_def done_with_def
      split: sum.splits)


text \<open>
  C1. The output of a clip in snap-to-reference mode is to have the width, the height
  and the transform of the reference. The code reaches no output: for the raster
  \<open>in/d.tif\<close> of the small world (10 by 10), a polygon at its corner and the
  reference \<open>ref.tif\<close> of 100 by 80 pixels, the run is the two opens, the call of
  \<open>mask\<close> with the keyword \<open>transform\<close>, and the log of the \<open>TypeError\<close>; the
  result is \<open>False\<close> and no raster is created or written, so there is no 100 by 80
  output.
\<close>

theorem snap_clip_creates_no_output:
  "rasterio_open test_env [] ''in/d.tif'' = Inr src10
   \<and> rasterio_open test_env [RioOpen ''in/d.tif''] ''ref.tif'' = Inr ref100
   \<and> width (ds_meta ref100) = 100 \<and> height (ds_meta ref100) = 80
   \<and> clip_raster_with_shapefile test_env ''in/d.tif'' ''out/d.tif'' [corner]
       (Some ''ref.tif'') [] =
      (Inr False,
       [RioOpen ''in/d.tif'', RioOpen ''ref.tif'',
        RioMask src10 [corner]
          \<lparr> crop = False, all_touched = True, mask_nodata = nodata (ds_meta src10),
            mask_transform = Some (transform (ds_meta ref100)) \<rparr>,
        Log ERROR (ErrorProcessing ''in/d.tif''
          (TypeError ''mask() got an unexpected keyword argument transform''))])"
  by (simp add: clip_snap_mode test_env_simps ref100_def)


text \<open>
  C9. The output of a clip in snap-to-reference mode is to carry the CRS of the
  reference over pixels that were never warped. In the code no warp is asked for, as
  the claim says, but no output is created or written either, whatever the library
  answers: every call with a reference raster returns \<open>False\<close>, and once both
  rasters open the run ends at the \<open>TypeError\<close> of the call of \<open>mask\<close>. This is the
  same defect as under C1.
\<close>

theorem snap_clip_never_writes:
  assumes "r \<noteq> []"
  shows "fst (clip_raster_with_shapefile E inp out shapes (Some r) t) = Inr False
     \<and> RioCreate p m \<notin> set (snd (clip_raster_with_shapefile E inp out shapes (Some r) t))
     \<and> RioWrite p img \<notin> set (snd (clip_raster_with_shapefile E inp out shapes (Some r) t))
     \<and> GdalWarp q ds opts \<notin> set (snd (clip_raster_with_shapefile E inp out shapes (Some r) t))
     \<and> (rasterio_open E t inp = Inr src \<and> rasterio_open E (t @ [RioOpen inp]) r = Inr ref
          \<longrightarrow> snd (clip_raster_with_shapefile E inp out shapes (Some r) t) =
                [RioOpen inp, RioOpen r,
                 RioMask src shapes
                   \<lparr> crop = False, all_touched = True, mask_nodata = nodata (ds_meta src),
                     mask_transform = Some (transform (ds_meta ref)) \<rparr>,
                 Log ERROR (ErrorProcessing inp
                   (TypeError ''mask() got an unexpected keyword argument transform''))])"
  by (simp add: clip_snap_mode [OF assms] split: sum.splits)


text \<open>
  The raster \<open>in/d.tif\<close> (EPSG:4326) with the reference \<open>ref.tif\<close> (EPSG:4547): no
  output labelled with the reference's CRS is created.
\<close>

theorem snap_clip_never_writes_witness:
  "''ref.tif'' \<noteq> []
   \<and> rasterio_open test_env [] ''in/d.tif'' = Inr src10
   \<and> rasterio_open test_env ([] @ [RioOpen ''in/d.tif'']) ''ref.tif'' = Inr ref100
   \<and> crs (ds_meta src10) = Some ''EPSG:4326'' \<and> crs (ds_meta ref100) = Some ''EPSG:4547''
   \<and> fst (clip_raster_with_shapefile test_env ''in/d.tif'' ''out/d.tif'' [corner]
            (Some ''ref.tif'') []) = Inr False
   \<and> RioCreate ''out/d.tif'' ((ds_meta src10) \<lparr> crs := crs (ds_meta ref100) \<rparr>)
        \<notin> set (snd (clip_raster_with_shapefile test_env ''in/d.tif'' ''out/d.tif'' [corner]
                    (Some ''ref.tif'') []))
   \<and> Log ERROR (ErrorProcessing ''in/d.tif''
          (TypeError ''mask() got an unexpected keyword argument transform''))
        \<in> set (snd (clip_raster_with_shapefile test_env ''in/d.tif'' ''out/d.tif'' [corner]
                    (Some ''ref.tif'') []))"
proof -
  have a: "''ref.tif'' \<noteq> []" by simp
  have b: "rasterio_open test_env [] ''in/d.tif'' = Inr src10"
    "rasterio_open test_env ([] @ [RioOpen ''in/d.tif'']) ''ref.tif'' = Inr ref100"
    by (simp_all add: test_env_simps)
  have c: "crs (ds_meta src10) = Some ''EPSG:4326''" "crs (ds_meta ref100) = Some ''EPSG:4547''"
    by (simp_all add: src10_def ref100_def)
  from snap_clip_never_writes [OF a, where E = test_env and inp = "''in/d.tif''"
      and out = "''out/d.tif''" and shapes = "[corner]" and t = "[]" and p = "''out/d.tif''"
      and m = "(ds_meta src10) \<lparr> crs := crs (ds_meta ref100) \<rparr>"
      and src = src10 and ref = ref100]
    a b c
  show ?thesis by simp
qed

subsection \<open>Clipping without a reference raster\<close>













subsection \<open>The loops over the files\<close>

lemma resample_tif_try_no_exit:
  "fst (resample_tif_try E target_res m inp out t) \<noteq> Inl (SysExit n)"
  using target_size_no_exit [of E target_res _ "t @ [GdalOpen inp]" n]
  by (auto simp: resample_tif_try_cases split: sum.splits option.splits)

lemma resample_tif_returns: "fst (resample_tif E target_res m inp out t) = Inr ()"
proof (cases "resample_tif_try E target_res m inp out t")
  case (Pair r evs)
  with resample_tif_try_no_exit [of E target_res m inp out t] show ?thesis
    by (cases r) (auto simp: resample_tif_def try_except_def emit_def split: abort.splits)
qed

lemma resample_tif_try_opens:
  "GdalOpen inp \<in> set (snd (resample_tif_try E target_res m inp out t))"
  by (simp add: resample_tif_try_cases split: sum.splits option.splits)

lemma resample_tif_opens: "GdalOpen inp \<in> set (snd (resample_tif E target_res m inp out t))"
  using resample_tif_try_opens [of inp E target_res m out t]
  by (auto simp: resample_tif_def try_except_def emit_def split: prod.splits sum.splits abort.splits)

lemma resample_tif_records:
  "fst (resample_tif_try E target_res m inp out t) = Inl (Raised e) \<Longrightarrow>
     resample_tif E target_res m inp out t =
       (Inr (), snd (resample_tif_try E target_res m inp out t)
                  @ [Print (FileFailed (os_path_basename E inp) e)])"
  by (auto simp: resample_tif_def try_except_def emit_def split: prod.splits)

lemma then_run_returns:
  "fst (m t) = Inr x \<Longrightarrow> then_run m k t =
     (fst (k x (t @ snd (m t))), snd (m t) @ snd (k x (t @ snd (m t))))"
  by (auto simp: then_run_def split: prod.splits sum.splits)

lemma resample_files_returns:
  "fst (resample_files E (Finite r) m i o' files t) = Inr ()"
proof (induction files arbitrary: t)
  case Nil
  show ?case by (simp add: done_with_def)
next
  case (Cons f fs)
  show ?case
    by (simp add: then_run_returns [OF resample_tif_returns] Cons.IH)
qed

lemma resample_files_opens:
  "f \<in> set files \<Longrightarrow>
     GdalOpen (os_path_join E i f) \<in> set (snd (resample_files E (Finite r) m i o' files t))"
proof (induction files arbitrary: t)
  case Nil
  then show ?case by simp
next
  case (Cons g gs)
  show ?case
  proof (cases "f = g")
    case True
    then show ?thesis
      by (simp add: then_run_returns [OF resample_tif_returns] resample_tif_opens)
  next
    case False
    with Cons.prems have "f \<in> set gs" by simp
    from Cons.IH [OF this] show ?thesis
      by (simp add: then_run_returns [OF resample_tif_returns])
  qed
qed

lemma resample_files_not_finite:
  "files \<noteq> [] \<Longrightarrow>
     resample_files E Infinity m i o' files t = (Inl (Raised OverflowError), [])
   \<and> resample_files E NegInfinity m i o' files t = (Inl (Raised OverflowError), [])
   \<and> resample_files E NaN m i o' files t =
       (Inl (Raised (ValueError ''cannot convert float NaN to integer'')), [])"
  by (cases files) (simp_all add: raise_exn_def)

lemma clip_try_no_exit: "fst (clip_try E inp out shapes ref t) \<noteq> Inl (SysExit n)"
  by (auto simp: clip_try_def clip_snap_def clip_crop_def call_mask_def
      call_rasterio_open_def call_makedirs_def call_rasterio_create_def call_write_def
      prim_defs Let_def
      split: sum.splits prod.splits option.splits if_splits)

lemma clip_returns: "\<exists>b. fst (clip_raster_with_shapefile E inp out shapes ref t) = Inr b"
proof (cases "clip_try E inp out shapes ref t")
  case (Pair r evs)
  with clip_try_no_exit [of E inp out shapes ref t] show ?thesis
    by (cases r) (auto simp: clip_raster_with_shapefile_def try_except_def then_run_def
        emit_def done_with_def split: abort.splits)
qed

lemma clip_opens: "RioOpen inp \<in> set (snd (clip_raster_with_shapefile E inp out shapes ref t))"
  by (auto simp: clip_raster_with_shapefile_def clip_try_def call_rasterio_open_def prim_defs
      split: sum.splits prod.splits abort.splits)

lemma clip_records:
  "fst (clip_try E inp out shapes ref t) = Inl (Raised e) \<Longrightarrow>
     clip_raster_with_shapefile E inp out shapes ref t =
       (Inr False, snd (clip_try E inp out shapes ref t) @ [Log ERROR (ErrorProcessing inp e)])"
  by (auto simp: clip_raster_with_shapefile_def try_except_def then_run_def emit_def
      done_with_def split: prod.splits)

lemma clip_files_step:
  assumes "fst (clip_raster_with_shapefile E tif (os_path_join E od (os_path_basename E tif))
                  shapes (Some ref) t) = Inr b"
  shows "clip_files E od shapes ref (tif # rest) (s, f) t =
     (let evs = snd (clip_raster_with_shapefile E tif
                      (os_path_join E od (os_path_basename E tif)) shapes (Some ref) t);
          r = clip_files E od shapes ref rest
                (if b then (s + 1, f) else (s, f + 1)) (t @ evs)
      in (fst r, evs @ snd r))"
  using assms
  by (auto simp: prim_defs Let_def split: prod.splits sum.splits)

lemma clip_files_counts:
  "\<exists>s' f'. fst (clip_files E od shapes ref tifs (s, f) t) = Inr (s', f')
     \<and> s \<le> s' \<and> f \<le> f' \<and> s' + f' = s + f + length tifs"
proof (induction tifs arbitrary: s f t)
  case Nil
  show ?case by (simp add: done_with_def)
next
  case (Cons tif rest)
  obtain b where b: "fst (clip_raster_with_shapefile E tif
      (os_path_join E od (os_path_basename E tif)) shapes (Some ref) t) = Inr b"
    using clip_returns by blast
  let ?evs = "snd (clip_raster_with_shapefile E tif
      (os_path_join E od (os_path_basename E tif)) shapes (Some ref) t)"
  show ?case
  proof (cases b)
    case True
    from Cons.IH [of "s + 1" f "t @ ?evs"] True show ?thesis
      by (simp add: clip_files_step [OF b] Let_def del: clip_files.simps) auto
  next
    case False
    from Cons.IH [of s "f + 1" "t @ ?evs"] False show ?thesis
      by (simp add: clip_files_step [OF b] Let_def del: clip_files.simps) auto
  qed
qed

lemma clip_snap_false:
  "ref \<noteq> [] \<Longrightarrow> fst (clip_raster_with_shapefile E inp out shapes (Some ref) t) = Inr False"
  by (simp add: clip_snap_mode split: sum.splits)

lemma clip_files_all_failed:
  "ref \<noteq> [] \<Longrightarrow> fst (clip_files E od shapes ref tifs (s, f) t) = Inr (s, f + length tifs)"
proof (induction tifs arbitrary: f t)
  case Nil
  show ?case by (simp add: done_with_def)
next
  case (Cons tif rest)
  show ?case
    by (simp add: clip_files_step [OF clip_snap_false [OF Cons.prems]] Let_def
        Cons.IH [OF Cons.prems] del: clip_files.simps)
qed

lemma clip_files_opens:
  "tif \<in> set tifs \<Longrightarrow> RioOpen tif \<in> set (snd (clip_files E od shapes ref tifs (s, f) t))"
proof (induction tifs arbitrary: s f t)
  case Nil
  then show ?case by simp
next
  case (Cons g gs)
  obtain b where b: "fst (clip_raster_with_shapefile E g
      (os_path_join E od (os_path_basename E g)) shapes (Some ref) t) = Inr b"
    using clip_returns by blast
  show ?case
  proof (cases "tif = g")
    case True
    then show ?thesis
      by (simp add: clip_files_step [OF b] Let_def clip_opens del: clip_files.simps)
  next
    case False
    with Cons.prems have "tif \<in> set gs" by simp
    from Cons.IH [OF this] show ?thesis
      by (simp add: clip_files_step [OF b] Let_def del: clip_files.simps)
  qed
qed



text \<open>
  C2, as the code has it, for the resampling and the clipping script.

  Resampling, with a finite target resolution: the loop always ends normally and opens
  every file of its list; an error raised under the \<open>try\<close> of \<open>resample_tif\<close> is
  printed against the file's base name and the function returns. With an infinite
  target resolution or NaN (which \<open>float\<close> accepts) and a list that is not empty,
  \<open>int(target_res)\<close> in the loop raises before the first file is opened, and nothing
  catches it.

  Clipping: the loop of \<open>main\<close> always ends normally, opens every file of its list and
  counts each file once, the counters never going down; an error raised under the
  \<open>try\<close> of \<open>clip_raster_with_shapefile\<close> is logged against the input path and the
  function returns \<open>False\<close>; a file for which it returns \<open>False\<close> adds one to
  \<open>failed\<close> and the loop goes on with the rest. With the reference raster that
  \<open>main\<close> passes (a path that is not empty) every file is counted as failed.

  The reprojection script has no handler (see the counterexample).
\<close>

theorem resample_and_clip_isolate_failures:
  "fst (resample_files E (Finite r) m i o' files t) = Inr ()
   \<and> (\<forall>f \<in> set files.
        GdalOpen (os_path_join E i f) \<in> set (snd (resample_files E (Finite r) m i o' files t)))
   \<and> (fst (resample_tif_try E r m inp out t) = Inl (Raised e) \<longrightarrow>
        resample_tif E r m inp out t =
          (Inr (), snd (resample_tif_try E r m inp out t)
                     @ [Print (FileFailed (os_path_basename E inp) e)]))
   \<and> (files \<noteq> [] \<longrightarrow>
        resample_files E Infinity m i o' files t = (Inl (Raised OverflowError), [])
        \<and> resample_files E NegInfinity m i o' files t = (Inl (Raised OverflowError), [])
        \<and> resample_files E NaN m i o' files t =
            (Inl (Raised (ValueError ''cannot convert float NaN to integer'')), []))
   \<and> (\<exists>s' f'. fst (clip_files E od shapes ref tifs (s, f) t) = Inr (s', f')
        \<and> s \<le> s' \<and> f \<le> f' \<and> s' + f' = s + f + length tifs)
   \<and> (\<forall>tif \<in> set tifs. RioOpen tif \<in> set (snd (clip_files E od shapes ref tifs (s, f) t)))
   \<and> (fst (clip_try E cinp cout shapes rr t) = Inl (Raised ce) \<longrightarrow>
        clip_raster_with_shapefile E cinp cout shapes rr t =
          (Inr False,
           snd (clip_try E cinp cout shapes rr t) @ [Log ERROR (ErrorProcessing cinp ce)]))
   \<and> (fst (clip_raster_with_shapefile E g (os_path_join E od (os_path_basename E g))
               shapes (Some ref) t) = Inr False \<longrightarrow>
        fst (clip_files E od shapes ref (g # rest) (s, f) t) =
          fst (clip_files E od shapes ref rest (s, f + 1)
                 (t @ snd (clip_raster_with_shapefile E g
                             (os_path_join E od (os_path_basename E g)) shapes (Some ref) t))))
   \<and> (ref \<noteq> [] \<longrightarrow>
        fst (clip_files E od shapes ref tifs (s, f) t) = Inr (s, f + length tifs))"
proof (intro conjI ballI impI)
  show "fst (resample_files E (Finite r) m i o' files t) = Inr ()"
    by (rule resample_files_returns)
next
  fix f assume "f \<in> set files"
  then show "GdalOpen (os_path_join E i f)
      \<in> set (snd (resample_files E (Finite r) m i o' files t))"
    by (rule resample_files_opens)
next
  assume "fst (resample_tif_try E r m inp out t) = Inl (Raised e)"
  then show "resample_tif E r m inp out t =
          (Inr (), snd (resample_tif_try E r m inp out t)
                     @ [Print (FileFailed (os_path_basename E inp) e)])"
    by (rule resample_tif_records)
next
  assume "files \<noteq> []"
  from resample_files_not_finite [OF this]
  show "resample_files E Infinity m i o' files t = (Inl (Raised OverflowError), [])"
    by (rule conjunct1)
next
  assume "files \<noteq> []"
  from resample_files_not_finite [OF this]
  show "resample_files E NegInfinity m i o' files t = (Inl (Raised OverflowError), [])"
    by simp
next
  assume "files \<noteq> []"
  from resample_files_not_finite [OF this]
  show "resample_files E NaN m i o' files t =
            (Inl (Raised (ValueError ''cannot convert float NaN to integer'')), [])"
    by simp
next
  show "\<exists>s' f'. fst (clip_files E od shapes ref tifs (s, f) t) = Inr (s', f')
        \<and> s \<le> s' \<and> f \<le> f' \<and> s' + f' = s + f + length tifs"
    by (rule clip_files_counts)
next
  fix tif assume "tif \<in> set tifs"
  then show "RioOpen tif \<in> set (snd (clip_files E od shapes ref tifs (s, f) t))"
    by (rule clip_files_opens)
next
  assume "fst (clip_try E cinp cout shapes rr t) = Inl (Raised ce)"
  then show "clip_raster_with_shapefile E cinp cout shapes rr t =
          (Inr False,
           snd (clip_try E cinp cout shapes rr t) @ [Log ERROR (ErrorProcessing cinp ce)])"
    by (rule clip_records)
next
  assume b: "fst (clip_raster_with_shapefile E g (os_path_join E od (os_path_basename E g))
               shapes (Some ref) t) = Inr False"
  show "fst (clip_files E od shapes ref (g # rest) (s, f) t) =
          fst (clip_files E od shapes ref rest (s, f + 1)
                 (t @ snd (clip_raster_with_shapefile E g
                             (os_path_join E od (os_path_basename E g)) shapes (Some ref) t)))"
    by (simp add: clip_files_step [OF b] Let_def del: clip_files.simps)
next
  assume "ref \<noteq> []"
  then show "fst (clip_files E od shapes ref tifs (s, f) t) = Inr (s, f + length tifs)"
    by (rule clip_files_all_failed)
qed


text \<open>
  In the small world \<open>a.tif\<close> is corrupt: both loops record the failure and go on to
  \<open>d.tif\<close>; the clipping loop ends with no success and two failures.
\<close>

theorem resample_and_clip_isolate_failures_witness:
  "fst (resample_tif_try test_env 6 GRA_Bilinear ''in/a.tif'' ''out/6m_a.tif'' [])
     = Inl (Raised (ValueError ''in/a.tif''))
   \<and> resample_tif test_env 6 GRA_Bilinear ''in/a.tif'' ''out/6m_a.tif'' []
     = (Inr (), [GdalOpen ''in/a.tif'', Print (FileFailed ''a.tif'' (ValueError ''in/a.tif''))])
   \<and> fst (resample_files test_env (Finite 6) GRA_Bilinear ''in'' ''out'' [''a.tif'', ''d.tif''] [])
     = Inr ()
   \<and> GdalOpen ''in/d.tif''
       \<in> set (snd (resample_files test_env (Finite 6) GRA_Bilinear ''in'' ''out''
                 [''a.tif'', ''d.tif''] []))
   \<and> resample_files test_env Infinity GRA_Bilinear ''in'' ''out'' [''a.tif'', ''d.tif''] []
     = (Inl (Raised OverflowError), [])
   \<and> fst (clip_try test_env ''in/a.tif'' ''out/a.tif'' [corner] (Some ''ref.tif'') [])
     = Inl (Raised (LibraryError ''not recognized''))
   \<and> clip_raster_with_shapefile test_env ''in/a.tif'' ''out/a.tif'' [corner] (Some ''ref.tif'') []
     = (Inr False,
        [RioOpen ''in/a.tif'',
         Log ERROR (ErrorProcessing ''in/a.tif'' (LibraryError ''not recognized''))])
   \<and> fst (clip_files test_env ''out'' [corner] ''ref.tif'' [''in/a.tif'', ''in/d.tif''] (0, 0) [])
     = fst (clip_files test_env ''out'' [corner] ''ref.tif'' [''in/d.tif''] (0, 1)
              [RioOpen ''in/a.tif'',
               Log ERROR (ErrorProcessing ''in/a.tif'' (LibraryError ''not recognized''))])
   \<and> fst (clip_files test_env ''out'' [corner] ''ref.tif'' [''in/a.tif'', ''in/d.tif''] (0, 0) [])
     = Inr (0, 2)
   \<and> RioOpen ''in/d.tif''
       \<in> set (snd (clip_files test_env ''out'' [corner] ''ref.tif'' [''in/a.tif'', ''in/d.tif'']
                 (0, 0) []))"
proof -
  have a: "resample_tif_try test_env 6 GRA_Bilinear ''in/a.tif'' ''out/6m_a.tif'' []
     = (Inl (Raised (ValueError ''in/a.tif'')), [GdalOpen ''in/a.tif''])"
    by (simp add: resample_tif_try_cases test_env_simps)
  then have w1: "fst (resample_tif_try test_env 6 GRA_Bilinear ''in/a.tif'' ''out/6m_a.tif'' [])
     = Inl (Raised (ValueError ''in/a.tif''))"
    by simp
  have b: "clip_try test_env ''in/a.tif'' ''out/a.tif'' [corner] (Some ''ref.tif'') []
     = (Inl (Raised (LibraryError ''not recognized'')), [RioOpen ''in/a.tif''])"
    by (simp add: clip_try_def call_rasterio_open_def run_defs)
  then have w6: "fst (clip_try test_env ''in/a.tif'' ''out/a.tif'' [corner] (Some ''ref.tif'') [])
     = Inl (Raised (LibraryError ''not recognized''))"
    by simp
  have j: "os_path_join test_env ''in'' ''d.tif'' = ''in/d.tif''"
    "os_path_basename test_env ''in/a.tif'' = ''a.tif''"
    "os_path_join test_env ''out'' ''a.tif'' = ''out/a.tif''"
    by (simp_all add: test_env_simps posix_join_def posix_basename_def)
  have c: "clip_raster_with_shapefile test_env ''in/a.tif''
        (os_path_join test_env ''out'' (os_path_basename test_env ''in/a.tif''))
        [corner] (Some ''ref.tif'') [] =
      (Inr False,
       [RioOpen ''in/a.tif'',
        Log ERROR (ErrorProcessing ''in/a.tif'' (LibraryError ''not recognized''))])"
    by (simp add: clip_snap_mode test_env_simps)
  then have c': "fst (clip_raster_with_shapefile test_env ''in/a.tif''
        (os_path_join test_env ''out'' (os_path_basename test_env ''in/a.tif''))
        [corner] (Some ''ref.tif'') []) = Inr False"
    by simp
  have d: "''d.tif'' \<in> set [''a.tif'', ''d.tif'']" "''in/d.tif'' \<in> set [''in/a.tif'', ''in/d.tif'']"
    "[''a.tif'', ''d.tif''] \<noteq> []" "''ref.tif'' \<noteq> []"
    by simp_all
  note T = resample_and_clip_isolate_failures
      [where E = test_env and r = 6 and m = GRA_Bilinear and i = "''in''"
         and o' = "''out''" and files = "[''a.tif'', ''d.tif'']" and t = "[]"
         and inp = "''in/a.tif''" and out = "''out/6m_a.tif''"
         and e = "ValueError ''in/a.tif''" and od = "''out''" and shapes = "[corner]"
         and ref = "''ref.tif''" and tifs = "[''in/a.tif'', ''in/d.tif'']" and s = 0 and f = 0
         and cinp = "''in/a.tif''" and cout = "''out/a.tif''"
         and ce = "LibraryError ''not recognized''" and rr = "Some ''ref.tif''"
         and g = "''in/a.tif''" and rest = "[''in/d.tif'']"]
  have "resample_tif test_env 6 GRA_Bilinear ''in/a.tif'' ''out/6m_a.tif'' [] =
      (Inr (), snd (resample_tif_try test_env 6 GRA_Bilinear ''in/a.tif'' ''out/6m_a.tif'' [])
                 @ [Print (FileFailed (os_path_basename test_env ''in/a.tif'')
                      (ValueError ''in/a.tif''))])"
    using T w1 by blast
  then have w2: "resample_tif test_env 6 GRA_Bilinear ''in/a.tif'' ''out/6m_a.tif'' []
     = (Inr (), [GdalOpen ''in/a.tif'', Print (FileFailed ''a.tif'' (ValueError ''in/a.tif''))])"
    by (simp add: a j)
  have w3: "fst (resample_files test_env (Finite 6) GRA_Bilinear ''in'' ''out''
      [''a.tif'', ''d.tif''] []) = Inr ()"
    using T by blast
  have "GdalOpen (os_path_join test_env ''in'' ''d.tif'')
       \<in> set (snd (resample_files test_env (Finite 6) GRA_Bilinear ''in'' ''out''
                 [''a.tif'', ''d.tif''] []))"
    using T d(1) by blast
  then have w4: "GdalOpen ''in/d.tif''
       \<in> set (snd (resample_files test_env (Finite 6) GRA_Bilinear ''in'' ''out''
                 [''a.tif'', ''d.tif''] []))"
    by (simp only: j)
  have w5: "resample_files test_env Infinity GRA_Bilinear ''in'' ''out'' [''a.tif'', ''d.tif''] []
     = (Inl (Raised OverflowError), [])"
    using T d(3) by blast
  have "clip_raster_with_shapefile test_env ''in/a.tif'' ''out/a.tif'' [corner]
      (Some ''ref.tif'') [] =
     (Inr False,
      snd (clip_try test_env ''in/a.tif'' ''out/a.tif'' [corner] (Some ''ref.tif'') [])
        @ [Log ERROR (ErrorProcessing ''in/a.tif'' (LibraryError ''not recognized''))])"
    using T w6 by blast
  then have w7: "clip_raster_with_shapefile test_env ''in/a.tif'' ''out/a.tif'' [corner]
      (Some ''ref.tif'') []
     = (Inr False,
        [RioOpen ''in/a.tif'',
         Log ERROR (ErrorProcessing ''in/a.tif'' (LibraryError ''not recognized''))])"
    by (simp add: b)
  have "fst (clip_files test_env ''out'' [corner] ''ref.tif'' (''in/a.tif'' # [''in/d.tif''])
          (0, 0) []) =
        fst (clip_files test_env ''out'' [corner] ''ref.tif'' [''in/d.tif''] (0, 0 + 1)
               ([] @ snd (clip_raster_with_shapefile test_env ''in/a.tif''
                     (os_path_join test_env ''out'' (os_path_basename test_env ''in/a.tif''))
                     [corner] (Some ''ref.tif'') [])))"
    using T c' by blast
  then have w8: "fst (clip_files test_env ''out'' [corner] ''ref.tif''
        [''in/a.tif'', ''in/d.tif''] (0, 0) [])
     = fst (clip_files test_env ''out'' [corner] ''ref.tif'' [''in/d.tif''] (0, 1)
              [RioOpen ''in/a.tif'',
               Log ERROR (ErrorProcessing ''in/a.tif'' (LibraryError ''not recognized''))])"
    by (simp add: c del: clip_files.simps)
  have "fst (clip_files test_env ''out'' [corner] ''ref.tif'' [''in/a.tif'', ''in/d.tif'']
          (0, 0) []) = Inr (0, 0 + length [''in/a.tif'', ''in/d.tif''])"
    using T d(4) by blast
  then have w9: "fst (clip_files test_env ''out'' [corner] ''ref.tif''
        [''in/a.tif'', ''in/d.tif''] (0, 0) []) = Inr (0, 2)"
    by (simp del: clip_files.simps)
  have w10: "RioOpen ''in/d.tif''
       \<in> set (snd (clip_files test_env ''out'' [corner] ''ref.tif'' [''in/a.tif'', ''in/d.tif'']
                 (0, 0) []))"
    using T d(2) by blast
  show ?thesis
    by (intro conjI w1 w2 w3 w4 w5 w6 w7 w8 w9 w10)
qed


text \<open>
  C2 as stated fails for the reprojection script: \<open>batch_reproject\<close> calls
  \<open>reproject_raster\<close> without a \<open>try\<close>. In the small world the corrupt \<open>a.tif\<close>
  comes first; the \<open>AttributeError\<close> ends the batch and the readable \<open>d.tif\<close> is
  never opened.
\<close>

theorem reproject_aborts_counterexample:
  "batch_reproject test_env ''in'' ''out'' ''ref.tif'' [] =
     (Inl (Raised AttributeError),
      [GdalOpen ''ref.tif'', Makedirs ''out'', Listdir ''in'', GdalOpen ''in/a.tif''])
   \<and> gdal_Open test_env [] ''in/d.tif'' = Inr (Some ds10)
   \<and> GdalOpen ''in/d.tif'' \<notin> set (snd (batch_reproject test_env ''in'' ''out'' ''ref.tif'' []))"
proof -
  have "batch_reproject test_env ''in'' ''out'' ''ref.tif'' [] =
     (Inl (Raised AttributeError),
      [GdalOpen ''ref.tif'', Makedirs ''out'', Listdir ''in'', GdalOpen ''in/a.tif''])"
    by (simp add: batch_reproject_def get_srs_from_raster_def reproject_raster_def run_defs
        endswith_def)
  then show ?thesis by (simp add: test_env_simps)
qed

subsection \<open>Which files the loops take\<close>


























end
